theory Spec2Isabelle
  imports Main "HOL-Library.Sublist"
begin

section \<open>The issue bot of psutil (.github/workflows/issues.py)\<close>

text \<open>
  The bot is run once per event on one issue or pull request. It reads the title, the
  body, the number of comments and the labels of the item, and it sends three kinds of
  requests to the hosting platform: add a label, create a comment, change the state.
  The model below keeps the names and the order of the Python source. Strings are lists
  of characters; a character stands for a code point below 256.
\<close>

subsection \<open>Python string operations\<close>

text \<open>
  \<^verbatim>\<open>c.lower()\<close> on one code point below 256: the letters A-Z and the Latin-1 capitals
  (0xC0-0xDE without the multiplication sign 0xD7) move up by 32, which sets bit 5;
  every other code point stays.
\<close>

definition lower_char :: "char \<Rightarrow> char" where
  "lower_char c =
     (let n = (of_char c :: nat) in
      if (65 \<le> n \<and> n \<le> 90) \<or> (192 \<le> n \<and> n \<le> 222 \<and> n \<noteq> 215)
      then (case c of Char b0 b1 b2 b3 b4 b5 b6 b7 \<Rightarrow> Char b0 b1 b2 b3 b4 True b6 b7)
      else c)"

definition lower :: "string \<Rightarrow> string" where
  "lower s = map lower_char s"

text \<open>\<^verbatim>\<open>sub in s\<close> on strings: \<open>sub\<close> occurs in \<open>s\<close> as a contiguous block.\<close>

fun str_in :: "string \<Rightarrow> string \<Rightarrow> bool" where
  "str_in sub [] = (sub = [])"
| "str_in sub (c # cs) = (prefix sub (c # cs) \<or> str_in sub cs)"

text \<open>\<^verbatim>\<open>s.endswith(suf)\<close> and \<^verbatim>\<open>s.replace(' ', '')\<close>.\<close>

definition endswith :: "string \<Rightarrow> string \<Rightarrow> bool" where
  "endswith s suf = suffix suf s"

definition replace_spaces :: "string \<Rightarrow> string" where
  "replace_spaces s = filter (\<lambda>c. c \<noteq> CHR '' '') s"

subsection \<open>The template-field regular expressions\<close>

text \<open>
  The three patterns of the source have one shape: a literal field name followed by
  \<^verbatim>\<open>.*?\n\<close>. Without the DOTALL flag the dot matches every character but the line
  feed, so at a given start position the pattern matches exactly when the text goes on
  with the field name and a line feed occurs later; the match then runs up to and
  including the first line feed. \<^verbatim>\<open>re.search\<close> returns the match at the leftmost
  start position that has one, and \<open>None\<close> when no position has one.
\<close>

definition re_match_field :: "string \<Rightarrow> string \<Rightarrow> string option" where
  "re_match_field field s =
     (if prefix field s \<and> CHR 0x0A \<in> set (drop (length field) s)
      then Some (field @ takeWhile (\<lambda>c. c \<noteq> CHR 0x0A) (drop (length field) s) @ [CHR 0x0A])
      else None)"

fun re_search_field :: "string \<Rightarrow> string \<Rightarrow> string option" where
  "re_search_field field [] = re_match_field field []"
| "re_search_field field (c # cs) =
     (case re_match_field field (c # cs) of
        Some g \<Rightarrow> Some g
      | None \<Rightarrow> re_search_field field cs)"

subsection \<open>Constants\<close>

text \<open>
  \<open>LABELS_MAP\<close> is a dictionary literal; its items are listed in insertion order, which
  is the order in which Python iterates over them. After the literal, the source appends
  to the keywords of \<open>scripts\<close> the names ending in \<^verbatim>\<open>.py\<close> among the entries of the
  scripts directory; the directory listing is a parameter of the model.
\<close>

definition LABELS_MAP_literal :: "(string \<times> string list) list" where
  "LABELS_MAP_literal =
   [(''linux'',
       [''linux'', ''ubuntu'', ''redhat'', ''mint'', ''centos'', ''red hat'', ''archlinux'',
        ''debian'', ''alpine'', ''gentoo'', ''fedora'', ''slackware'', ''suse'', ''RHEL'',
        ''opensuse'', ''manylinux'', ''apt '', ''apt-'', ''rpm'', ''yum'', ''kali'',
        ''/sys/class'', ''/proc/net'', ''/proc/disk'', ''/proc/smaps'',
        ''/proc/vmstat'']),
    (''windows'',
       [''windows'', ''win32'', ''WinError'', ''WindowsError'', ''win10'', ''win7'',
        ''win '', ''mingw'', ''msys'', ''studio'', ''microsoft'', ''make.bat'',
        ''CloseHandle'', ''GetLastError'', ''NtQuery'', ''DLL'', ''MSVC'', ''TCHAR'',
        ''WCHAR'', ''.bat'', ''OpenProcess'', ''TerminateProcess'', ''appveyor'',
        ''windows error'', ''NtWow64'', ''NTSTATUS'', ''Visual Studio'']),
    (''macos'',
       [''macos'', ''mac '', ''osx'', ''os x'', ''mojave'', ''sierra'', ''capitan'',
        ''yosemite'', ''catalina'', ''mojave'', ''big sur'', ''xcode'', ''darwin'',
        ''dylib'']),
    (''aix'', [''aix'']),
    (''cygwin'', [''cygwin'']),
    (''freebsd'', [''freebsd'']),
    (''netbsd'', [''netbsd'']),
    (''openbsd'', [''openbsd'']),
    (''sunos'', [''sunos'', ''solaris'']),
    (''wsl'', [''wsl'']),
    (''unix'',
       [''psposix'', ''_psutil_posix'', ''waitpid'', ''statvfs'', ''/dev/tty'',
        ''/dev/pts'']),
    (''pypy'', [''pypy'']),
    (''enhancement'', [''enhancement'']),
    (''memleak'', [''memory leak'', ''leaks memory'', ''memleak'', ''mem leak'']),
    (''api'', [''idea'', ''proposal'', ''api'', ''feature'']),
    (''performance'', [''performance'', ''speedup'', ''speed up'', ''slow'', ''fast'']),
    (''wheels'', [''wheel'', ''wheels'']),
    (''scripts'',
       [''example script'', ''examples script'', ''example dir'', ''scripts/'']),
    (''bug'',
       [''fail'', ''can't execute'', ''can't install'', ''cannot execute'',
        ''cannot install'', ''install error'', ''crash'', ''critical'']),
    (''doc'',
       [''doc '', ''document '', ''documentation'', ''readthedocs'', ''pythonhosted'',
        ''HISTORY'', ''README'', ''dev guide'', ''devguide'', ''sphinx'', ''docfix'',
        ''index.rst'']),
    (''tests'',
       ['' test '', ''tests'', ''travis'', ''coverage'', ''cirrus'', ''appveyor'',
        ''continuous integration'', ''unittest'', ''pytest'', ''unit test'']),
    (''priority-high'',
       [''WinError'', ''WindowsError'', ''RuntimeError'', ''ZeroDivisionError'',
        ''SystemError'', ''MemoryError'', ''core dumped'',
        ''segfault'', ''segmentation fault''])]"

definition LABELS_MAP :: "string list \<Rightarrow> (string \<times> string list) list" where
  "LABELS_MAP listdir =
     map (\<lambda>(label, keywords).
            if label = ''scripts''
            then (label, keywords @ filter (\<lambda>x. endswith x ''.py'') listdir)
            else (label, keywords))
         LABELS_MAP_literal"

definition ILLOGICAL_PAIRS :: "(string \<times> string) list" where
  "ILLOGICAL_PAIRS =
   [(''bug'', ''enhancement''),
    (''doc'', ''tests''),
    (''scripts'', ''doc''),
    (''scripts'', ''tests''),
    (''bsd'', ''freebsd''),
    (''bsd'', ''openbsd''),
    (''bsd'', ''netbsd'')]"

definition REPLY_MISSING_PYTHON_HEADERS :: string where
  "REPLY_MISSING_PYTHON_HEADERS =
     ''It looks like you're missing `Python.h` headers. This usually means you have '' @
     ''to install them first, then retry psutil installation.'' @ [CHR 0x0A] @
     ''Please read '' @
     ''[INSTALL](https://github.com/giampaolo/psutil/blob/master/INSTALL.rst) '' @
     ''instructions for your platform. '' @
     ''This is an auto-generated response based on the text you submitted. '' @
     ''If this was a mistake or you think there's a bug with psutil installation '' @
     ''process, please add a comment to reopen this issue.'' @ [CHR 0x0A]"

subsection \<open>The item and the requests sent to the platform\<close>

text \<open>
  An error of the run is a value. The only exception the source itself can raise on
  string inputs is the \<open>TypeError\<close> of the \<^verbatim>\<open>%\<close> operator (see \<open>should_add\<close> and
  \<open>main\<close>); failures of the network are outside the model: every request succeeds.
\<close>

datatype error = TypeError

datatype request = AddToLabels string | CreateComment string | EditState string

text \<open>
  The item as the bot sees it: \<open>py_module\<close> is \<^verbatim>\<open>issue.__module__\<close>, \<open>comments\<close> the
  number of comments, \<open>labels\<close> the names of the attached labels, \<open>state\<close> the state
  (\<^verbatim>\<open>open\<close> or \<^verbatim>\<open>closed\<close>), and \<open>requests\<close> the requests sent so far, oldest first.
\<close>

record issue =
  py_module :: string
  title :: string
  body :: string
  comments :: nat
  labels :: "string list"
  state :: string
  requests :: "request list"

text \<open>
  Modelled from the spec: the client of the hosting platform (a third-party library, not
  part of the repository). The spec gives it as a capability interface on an item that
  "has a set of currently assigned labels, uniqueness enforced by the hosting platform":
  read labels, add-label, add-comment, set-state. Reading the labels is the field
  \<open>labels\<close>; the three writing capabilities change the item and are recorded in
  \<open>requests\<close>. A label added through the client belongs to the labels of the item
  from then on, so a later \<open>has_label\<close> sees it.
\<close>

definition add_to_labels :: "issue \<Rightarrow> string \<Rightarrow> issue" where
  "add_to_labels issue label =
     issue\<lparr>labels := (if label \<in> set (labels issue) then labels issue
                      else labels issue @ [label]),
           requests := requests issue @ [AddToLabels label]\<rparr>"

definition create_comment :: "issue \<Rightarrow> string \<Rightarrow> issue" where
  "create_comment issue text =
     issue\<lparr>comments := Suc (comments issue),
           requests := requests issue @ [CreateComment text]\<rparr>"

definition edit_state :: "issue \<Rightarrow> string \<Rightarrow> issue" where
  "edit_state issue st =
     issue\<lparr>state := st, requests := requests issue @ [EditState st]\<rparr>"

subsection \<open>Utilities\<close>

definition is_pr :: "issue \<Rightarrow> bool" where
  "is_pr issue = str_in ''PullRequest'' (py_module issue)"

definition is_issue :: "issue \<Rightarrow> bool" where
  "is_issue issue = (\<not> is_pr issue)"

definition is_new :: "issue \<Rightarrow> bool" where
  "is_new issue = (comments issue = 0)"


definition has_label :: "issue \<Rightarrow> string \<Rightarrow> bool" where
  "has_label issue label = (label \<in> set (labels issue))"

subsection \<open>Actions\<close>

text \<open>
  A procedure takes the item and returns the normal or exceptional outcome together with
  the item as the run left it. \<open>and_then\<close> is the sequencing of two statements: an
  exception of the first skips the second.
\<close>

type_synonym outcome = "(error + unit) \<times> issue"

definition done_ok :: "issue \<Rightarrow> outcome" where
  "done_ok issue = (Inr (), issue)"

definition and_then :: "outcome \<Rightarrow> (issue \<Rightarrow> outcome) \<Rightarrow> outcome" where
  "and_then r f = (case r of (Inl e, issue) \<Rightarrow> (Inl e, issue) | (Inr u, issue) \<Rightarrow> f issue)"

text \<open>
  \<open>should_add\<close>, the guard nested in \<open>add_label\<close>. \<open>should_add_pairs\<close> is its \<^verbatim>\<open>for\<close>
  loop over the pairs together with the final \<^verbatim>\<open>return not has_label(issue, label)\<close>.
  When a pair fires, the source evaluates \<^verbatim>\<open>"already has label" % (label)\<close> as the
  argument of \<open>log\<close>: the format string has no conversion specifier for its one
  argument, so Python raises \<open>TypeError\<close> there and the \<^verbatim>\<open>return False\<close> of the next
  line is not reached. What \<open>log\<close> prints is not part of the model.
\<close>

fun should_add_pairs :: "issue \<Rightarrow> string \<Rightarrow> (string \<times> string) list \<Rightarrow> error + bool" where
  "should_add_pairs issue label [] = Inr (\<not> has_label issue label)"
| "should_add_pairs issue label ((left, right) # pairs) =
     (if label = left \<and> has_label issue right then Inl TypeError
      else should_add_pairs issue label pairs)"

definition should_add :: "issue \<Rightarrow> string \<Rightarrow> error + bool" where
  "should_add issue label =
     (if has_label issue label then Inr False
      else should_add_pairs issue label ILLOGICAL_PAIRS)"

definition add_label :: "issue \<Rightarrow> string \<Rightarrow> outcome" where
  "add_label issue label =
     (case should_add issue label of
        Inl e \<Rightarrow> (Inl e, issue)
      | Inr ok \<Rightarrow> if \<not> ok then (Inr (), issue) else (Inr (), add_to_labels issue label))"

text \<open>
  \<open>_guess_labels_from_text\<close> is a generator; the model returns the pairs it yields, in
  the order it yields them. The catalog (the global \<open>LABELS_MAP\<close>) is its first argument.
\<close>

definition guess_labels_from_text ::
    "(string \<times> string list) list \<Rightarrow> issue \<Rightarrow> string \<Rightarrow> (string \<times> string) list" where
  "guess_labels_from_text catalog issue text =
     concat (map (\<lambda>(label, keywords).
                    map (\<lambda>keyword. (label, keyword))
                        (filter (\<lambda>keyword. str_in (lower keyword) (lower text)) keywords))
                 catalog)"

fun add_label_each :: "issue \<Rightarrow> (string \<times> string) list \<Rightarrow> outcome" where
  "add_label_each issue [] = done_ok issue"
| "add_label_each issue ((label, keyword) # rest) =
     and_then (add_label issue label) (\<lambda>issue'. add_label_each issue' rest)"

definition add_labels_from_text ::
    "(string \<times> string list) list \<Rightarrow> issue \<Rightarrow> string \<Rightarrow> outcome" where
  "add_labels_from_text catalog issue text =
     add_label_each issue (guess_labels_from_text catalog issue text)"

text \<open>
  \<open>add_labels_from_new_body\<close> is three blocks in sequence: the OS line, the Bug fix line
  and the Type line. The Type block is seven statements of the form
  \<^verbatim>\<open>if 'x' in s: add_label(issue, 'x')\<close>, in the order of \<open>TYPE_NAMES\<close>.
\<close>

definition os_line :: "(string \<times> string list) list \<Rightarrow> issue \<Rightarrow> string \<Rightarrow> outcome" where
  "os_line catalog issue text =
     (case re_search_field ''* OS:'' text of
        Some g \<Rightarrow> add_labels_from_text catalog issue g
      | None \<Rightarrow> done_ok issue)"

definition bug_fix_line :: "issue \<Rightarrow> string \<Rightarrow> outcome" where
  "bug_fix_line issue text =
     (case re_search_field ''* Bug fix:'' text of
        Some g \<Rightarrow>
          if is_pr issue \<and> \<not> has_label issue ''bug'' \<and> \<not> has_label issue ''enhancement''
          then (if str_in ''yes'' (lower g) then add_label issue ''bug''
                else add_label issue ''enhancement'')
          else done_ok issue
      | None \<Rightarrow> done_ok issue)"

definition TYPE_NAMES :: "string list" where
  "TYPE_NAMES =
     [''doc'', ''performance'', ''scripts'', ''tests'', ''wheels'', ''new-api'',
      ''new-platform'']"

fun type_checks :: "issue \<Rightarrow> string \<Rightarrow> string list \<Rightarrow> outcome" where
  "type_checks issue s [] = done_ok issue"
| "type_checks issue s (name # names) =
     and_then (if str_in name s then add_label issue name else done_ok issue)
              (\<lambda>issue'. type_checks issue' s names)"

definition type_line :: "issue \<Rightarrow> string \<Rightarrow> outcome" where
  "type_line issue text =
     (case re_search_field ''* Type:'' text of
        Some g \<Rightarrow> type_checks issue (lower g) TYPE_NAMES
      | None \<Rightarrow> done_ok issue)"

definition add_labels_from_new_body ::
    "(string \<times> string list) list \<Rightarrow> issue \<Rightarrow> string \<Rightarrow> outcome" where
  "add_labels_from_new_body catalog issue text =
     and_then (os_line catalog issue text)
       (\<lambda>issue1. and_then (bug_fix_line issue1 text)
          (\<lambda>issue2. type_line issue2 text))"

subsection \<open>Events\<close>

definition has_text :: "issue \<Rightarrow> string \<Rightarrow> bool" where
  "has_text issue text =
     (str_in text (lower (title issue)) \<or> str_in text (lower (body issue)))"

text \<open>The condition of the \<^verbatim>\<open>if\<close> in \<open>on_new_issue\<close>.\<close>

definition missing_python_h :: "issue \<Rightarrow> bool" where
  "missing_python_h issue =
     (has_text issue ''missing python.h'' \<or>
      has_text issue ''python.h: no such file or directory'' \<or>
      str_in (''#include<Python.h>'' @ [CHR 0x0A] @ ''^~~~'') (replace_spaces (body issue)) \<or>
      str_in (''#include<Python.h>'' @ [CHR 0x0D, CHR 0x0A] @ ''^~~~'')
             (replace_spaces (body issue)))"

definition on_new_issue :: "issue \<Rightarrow> outcome" where
  "on_new_issue issue =
     (if missing_python_h issue
      then done_ok (edit_state (create_comment issue REPLY_MISSING_PYTHON_HEADERS) ''closed'')
      else done_ok issue)"

definition on_new_pr :: "issue \<Rightarrow> outcome" where
  "on_new_pr issue = done_ok issue"

definition on_new_comment :: "issue \<Rightarrow> outcome" where
  "on_new_comment issue = done_ok issue"

text \<open>
  \<open>main\<close>, after the item has been fetched. In the branch of a comment event the source
  evaluates \<^verbatim>\<open>"new comment: \n" % issue.body\<close> as the argument of \<open>log\<close>; again the
  format string has no conversion specifier, Python raises \<open>TypeError\<close>, and
  \<open>on_new_comment\<close> is not reached.
\<close>

definition log_new_comment :: "issue \<Rightarrow> outcome" where
  "log_new_comment issue = (Inl TypeError, issue)"

definition main :: "(string \<times> string list) list \<Rightarrow> issue \<Rightarrow> outcome" where
  "main catalog issue =
     (if is_new issue
      then and_then (add_labels_from_text catalog issue (title issue))
             (\<lambda>issue1. and_then (add_labels_from_new_body catalog issue1 (body issue1))
                (\<lambda>issue2. and_then (if is_issue issue2 then on_new_issue issue2
                                      else done_ok issue2)
                   (\<lambda>issue3. if is_pr issue3 then on_new_pr issue3 else done_ok issue3)))
      else and_then (log_new_comment issue) on_new_comment)"

subsection \<open>Items as fetched\<close>

text \<open>
  The item as \<^verbatim>\<open>get_issue\<close> hands it to \<open>main\<close>: open, and no request sent yet.
\<close>

definition fetched :: "string \<Rightarrow> string \<Rightarrow> string \<Rightarrow> nat \<Rightarrow> string list \<Rightarrow> issue" where
  "fetched m t b n ls =
     \<lparr>py_module = m, title = t, body = b, comments = n, labels = ls,
      state = ''open'', requests = []\<rparr>"

subsection \<open>What a label stage may change\<close>

text \<open>
  \<open>only_labels_added issue issue'\<close>: the item \<open>issue'\<close> is \<open>issue\<close> after some add-label
  requests and nothing else; no comment was created and the state was not changed.
\<close>

definition is_add :: "request \<Rightarrow> bool" where
  "is_add r = (case r of AddToLabels label \<Rightarrow> True | CreateComment text \<Rightarrow> False
               | EditState st \<Rightarrow> False)"

definition only_labels_added :: "issue \<Rightarrow> issue \<Rightarrow> bool" where
  "only_labels_added issue issue' =
     (py_module issue' = py_module issue \<and> title issue' = title issue \<and>
      body issue' = body issue \<and> comments issue' = comments issue \<and>
      state issue' = state issue \<and> prefix (requests issue) (requests issue') \<and>
      list_all is_add (drop (length (requests issue)) (requests issue')))"

section \<open>Properties\<close>

subsection \<open>Substring search\<close>

lemma str_in_iff: "str_in sub s \<longleftrightarrow> (\<exists>pre post. s = pre @ sub @ post)"
proof (induction s)
  case Nil
  then show ?case by auto
next
  case (Cons c cs)
  show ?case
  proof
    assume "str_in sub (c # cs)"
    then consider "prefix sub (c # cs)" | "str_in sub cs" by auto
    then show "\<exists>pre post. c # cs = pre @ sub @ post"
    proof cases
      case 1
      then obtain post where "c # cs = sub @ post" by (auto simp: prefix_def)
      then have "c # cs = [] @ sub @ post" by simp
      then show ?thesis by blast
    next
      case 2
      with Cons.IH obtain pre post where "cs = pre @ sub @ post" by blast
      then have "c # cs = (c # pre) @ sub @ post" by simp
      then show ?thesis by blast
    qed
  next
    assume "\<exists>pre post. c # cs = pre @ sub @ post"
    then obtain pre post where eq: "c # cs = pre @ sub @ post" by blast
    show "str_in sub (c # cs)"
    proof (cases pre)
      case Nil
      with eq have "prefix sub (c # cs)" by (simp add: prefix_def)
      then show ?thesis by simp
    next
      case (Cons d pre')
      with eq have "cs = pre' @ sub @ post" by simp
      with Cons.IH have "str_in sub cs" by blast
      then show ?thesis by simp
    qed
  qed
qed

subsection \<open>Label inference\<close>

lemma str_in_sublist: "str_in sub s = sublist sub s"
  by (simp add: str_in_iff sublist_def)

lemma lower_Nil_iff: "lower s = [] \<longleftrightarrow> s = []"
  by (simp add: lower_def)

lemma guess_labels_set:
  "(label, keyword) \<in> set (guess_labels_from_text catalog issue text) \<longleftrightarrow>
     (\<exists>keywords. (label, keywords) \<in> set catalog \<and> keyword \<in> set keywords \<and>
        str_in (lower keyword) (lower text))"
  by (auto simp: guess_labels_from_text_def)

lemma guess_labels_empty_text:
  assumes "\<And>label keywords. (label, keywords) \<in> set catalog \<Longrightarrow> [] \<notin> set keywords"
  shows "guess_labels_from_text catalog issue [] = []"
proof -
  have "p \<notin> set (guess_labels_from_text catalog issue [])" for p
  proof (cases p)
    case (Pair label keyword)
    show ?thesis
    proof
      assume "p \<in> set (guess_labels_from_text catalog issue [])"
      with Pair obtain kws where
        k: "(label, kws) \<in> set catalog" "keyword \<in> set kws"
        and "str_in (lower keyword) (lower [])"
        by (auto simp: guess_labels_set)
      then have "keyword = []" by (simp add: lower_def)
      with k assms show False by blast
    qed
  qed
  note none = this
  show ?thesis
  proof (cases "guess_labels_from_text catalog issue []")
    case Nil
    then show ?thesis .
  next
    case (Cons p ps)
    then have "p \<in> set (guess_labels_from_text catalog issue [])" by simp
    with none show ?thesis by blast
  qed
qed

lemma endswith_py_nonempty: "endswith x ''.py'' \<Longrightarrow> x \<noteq> []"
  by (auto simp: endswith_def)

lemma LABELS_MAP_keywords_nonempty:
  "(label, keywords) \<in> set (LABELS_MAP listdir) \<Longrightarrow> [] \<notin> set keywords"
  unfolding LABELS_MAP_def LABELS_MAP_literal_def
  by (auto dest: endswith_py_nonempty)

text \<open>
  C1. For every text and every catalog, the inference yields the pair (label, keyword)
  exactly when the keyword is listed under the label in the catalog and its lower-cased
  form occurs as a substring of the lower-cased text. On the empty text the inference
  over the catalog of the program, whatever the scripts directory holds, yields nothing.
\<close>

theorem guess_labels_from_text_iff:
  "((label, keyword) \<in> set (guess_labels_from_text catalog issue text) \<longleftrightarrow>
      (\<exists>keywords. (label, keywords) \<in> set catalog \<and> keyword \<in> set keywords \<and>
         sublist (lower keyword) (lower text))) \<and>
   guess_labels_from_text (LABELS_MAP listdir) issue [] = []"
proof
  show "(label, keyword) \<in> set (guess_labels_from_text catalog issue text) \<longleftrightarrow>
      (\<exists>keywords. (label, keywords) \<in> set catalog \<and> keyword \<in> set keywords \<and>
         sublist (lower keyword) (lower text))"
    by (simp add: guess_labels_set str_in_sublist)
  show "guess_labels_from_text (LABELS_MAP listdir) issue [] = []"
    by (rule guess_labels_empty_text) (rule LABELS_MAP_keywords_nonempty)
qed


subsection \<open>The guard of label application\<close>

lemma should_add_pairs_eq:
  "should_add_pairs issue label pairs =
     (if \<exists>p \<in> set pairs. label = fst p \<and> has_label issue (snd p) then Inl TypeError
      else Inr (\<not> has_label issue label))"
proof (induction pairs)
  case Nil
  then show ?case by simp
next
  case (Cons p pairs)
  obtain left right where p: "p = (left, right)" by (cases p)
  show ?case
  proof (cases "label = left \<and> has_label issue right")
    case True
    with p show ?thesis by simp
  next
    case False
    with p Cons.IH show ?thesis by auto
  qed
qed

lemma should_add_True_iff:
  "should_add issue label = Inr True \<longleftrightarrow>
     \<not> has_label issue label \<and>
     \<not> (\<exists>p \<in> set ILLOGICAL_PAIRS. label = fst p \<and> has_label issue (snd p))"
  by (simp add: should_add_def should_add_pairs_eq)

lemma should_add_present: "has_label issue label \<Longrightarrow> should_add issue label = Inr False"
  by (simp add: should_add_def)

lemma add_label_accept:
  "should_add issue label = Inr True \<Longrightarrow> add_label issue label = (Inr (), add_to_labels issue label)"
  by (simp add: add_label_def)

lemma add_label_reject:
  "should_add issue label = Inr False \<Longrightarrow> add_label issue label = (Inr (), issue)"
  by (simp add: add_label_def)

lemma add_label_raise:
  "should_add issue label = Inl e \<Longrightarrow> add_label issue label = (Inl e, issue)"
  by (simp add: add_label_def)

lemma add_label_not_accept:
  "should_add issue label \<noteq> Inr True \<Longrightarrow> snd (add_label issue label) = issue"
  by (cases "should_add issue label") (auto simp: add_label_def)

lemma has_label_add_to_labels: "has_label (add_to_labels issue label) label"
  by (simp add: has_label_def add_to_labels_def)

lemma add_label_pair_fires:
  assumes "(left, right) \<in> set ILLOGICAL_PAIRS" "has_label issue right" "\<not> has_label issue left"
  shows "add_label issue left = (Inl TypeError, issue)"
proof -
  from assms(1,2) have "\<exists>p \<in> set ILLOGICAL_PAIRS. left = fst p \<and> has_label issue (snd p)"
    by force
  with assms(3) have "should_add issue left = Inl TypeError"
    by (simp add: should_add_def should_add_pairs_eq)
  then show ?thesis by (rule add_label_raise)
qed

text \<open>
  C7. Label application is idempotent. A second \<open>add_label\<close> with the same label, on
  the item as the first call left it, changes nothing: it sends no request. The first
  call sends exactly one add request when the guard accepts the label, and then the guard
  rejects the second attempt because the label is present; an attempt that the guard
  does not accept sends no request and leaves the item as it was.
\<close>

theorem add_label_idempotent:
  "snd (add_label (snd (add_label issue label)) label) = snd (add_label issue label) \<and>
   requests (snd (add_label issue label)) =
     requests issue @ (if should_add issue label = Inr True then [AddToLabels label] else []) \<and>
   (should_add issue label = Inr True \<longrightarrow>
      should_add (snd (add_label issue label)) label = Inr False) \<and>
   (should_add issue label \<noteq> Inr True \<longrightarrow> snd (add_label issue label) = issue)"
proof (cases "should_add issue label = Inr True")
  case True
  then have first: "add_label issue label = (Inr (), add_to_labels issue label)"
    by (rule add_label_accept)
  have second: "should_add (add_to_labels issue label) label = Inr False"
    by (rule should_add_present) (rule has_label_add_to_labels)
  then have "add_label (add_to_labels issue label) label = (Inr (), add_to_labels issue label)"
    by (rule add_label_reject)
  with True first second show ?thesis
    by (simp add: add_to_labels_def)
next
  case False
  then have "snd (add_label issue label) = issue"
    by (rule add_label_not_accept)
  with False show ?thesis by simp
qed

theorem add_label_idempotent_witness:
  "should_add (fetched ''github.Issue'' ''t'' ''b'' 0 []) ''doc'' = Inr True \<and>
   requests (snd (add_label (snd (add_label (fetched ''github.Issue'' ''t'' ''b'' 0 []) ''doc'')) ''doc''))
     = [AddToLabels ''doc'']"
  using add_label_idempotent [of "fetched ''github.Issue'' ''t'' ''b'' 0 []" "''doc''"]
  by (simp add: should_add_def ILLOGICAL_PAIRS_def has_label_def fetched_def)

text \<open>
  C2. On an item that carries \<open>enhancement\<close>, proposing \<open>bug\<close> (the pair
  \<open>(bug, enhancement)\<close> of the table) does not end in a rejection: the guard raises
  \<open>TypeError\<close>, which \<open>add_label\<close> passes on. The label is not attached and no
  request is sent.
\<close>

theorem add_label_illogical_pair_raises:
  "add_label (fetched ''github.Issue'' ''psutil crash'' '''' 0 [''enhancement'']) ''bug'' =
     (Inl TypeError, fetched ''github.Issue'' ''psutil crash'' '''' 0 [''enhancement''])"
  by (simp add: add_label_def should_add_def ILLOGICAL_PAIRS_def has_label_def fetched_def)

subsection \<open>Searching for a template field\<close>

lemma re_match_field_unterminated:
  "CHR 0x0A \<notin> set s \<Longrightarrow> re_match_field field s = None"
  by (auto simp: re_match_field_def dest: in_set_dropD)

lemma re_search_field_unterminated:
  "CHR 0x0A \<notin> set s \<Longrightarrow> re_search_field field s = None"
  by (induction s) (simp_all add: re_match_field_unterminated)

lemma prefix_before_line_end:
  assumes "CHR 0x0A \<notin> set field" "s \<noteq> []" "last s = CHR 0x0A"
  shows "prefix field (s @ line) \<longleftrightarrow> prefix field s"
proof
  assume "prefix field (s @ line)"
  then consider "prefix field s" | us where "field = s @ us"
    by (auto simp: prefix_append)
  then show "prefix field s"
  proof cases
    case 1
    then show ?thesis .
  next
    case 2
    with assms(2) have "last s \<in> set field" by simp
    with assms(1,3) show ?thesis by simp
  qed
next
  assume "prefix field s"
  then show "prefix field (s @ line)" by (rule prefix_prefix)
qed

lemma re_match_field_append:
  assumes "CHR 0x0A \<notin> set line" "CHR 0x0A \<notin> set field" "s \<noteq> []" "last s = CHR 0x0A"
  shows "re_match_field field (s @ line) = re_match_field field s"
proof (cases "prefix field s")
  case True
  then obtain t where s: "s = field @ t" by (auto simp: prefix_def)
  have pre: "prefix field (s @ line)" using True by (rule prefix_prefix)
  show ?thesis
  proof (cases "CHR 0x0A \<in> set t")
    case True
    then have "takeWhile (\<lambda>c. c \<noteq> CHR 0x0A) (t @ line) = takeWhile (\<lambda>c. c \<noteq> CHR 0x0A) t"
      by simp
    with True s show ?thesis by (simp add: re_match_field_def)
  next
    case False
    with assms(1) s show ?thesis by (simp add: re_match_field_def)
  qed
next
  case False
  with assms have "\<not> prefix field (s @ line)" by (simp add: prefix_before_line_end)
  with False show ?thesis by (simp add: re_match_field_def)
qed

lemma re_search_field_append:
  assumes "CHR 0x0A \<notin> set line" "CHR 0x0A \<notin> set field"
  shows "s = [] \<or> last s = CHR 0x0A \<Longrightarrow>
         re_search_field field (s @ line) = re_search_field field s"
proof (induction s)
  case Nil
  from assms(1) show ?case
    by (simp add: re_search_field_unterminated re_match_field_unterminated)
next
  case (Cons c cs)
  then have l: "last (c # cs) = CHR 0x0A" by simp
  then have "cs = [] \<or> last cs = CHR 0x0A" by (auto split: if_splits)
  with Cons.IH have ih: "re_search_field field (cs @ line) = re_search_field field cs" .
  have "re_match_field field ((c # cs) @ line) = re_match_field field (c # cs)"
    using assms l by (intro re_match_field_append) simp_all
  with ih show ?case by (simp split: option.splits)
qed

lemma re_match_then_search:
  "re_match_field field s = Some g \<Longrightarrow> re_search_field field s = Some g"
  by (cases s) simp_all

lemma re_search_field_finds:
  "CHR 0x0A \<in> set rest \<Longrightarrow> \<exists>g. re_search_field field (pre @ field @ rest) = Some g"
proof (induction pre)
  case Nil
  then have "\<exists>g. re_match_field field (field @ rest) = Some g"
    by (simp add: re_match_field_def)
  then show ?case by (auto dest: re_match_then_search)
next
  case (Cons c pre)
  then show ?case by (cases "re_match_field field (c # pre @ field @ rest)") auto
qed

lemma re_match_field_Some:
  assumes "re_match_field field s = Some g"
  shows "\<exists>b post. s = field @ b @ [CHR 0x0A] @ post \<and> CHR 0x0A \<notin> set b \<and> g = field @ b @ [CHR 0x0A]"
proof -
  from assms have p: "prefix field s" and n: "CHR 0x0A \<in> set (drop (length field) s)"
    and g: "g = field @ takeWhile (\<lambda>c. c \<noteq> CHR 0x0A) (drop (length field) s) @ [CHR 0x0A]"
    by (auto simp: re_match_field_def split: if_splits)
  let ?t = "drop (length field) s"
  let ?b = "takeWhile (\<lambda>c. c \<noteq> CHR 0x0A) ?t"
  from p have s: "s = field @ ?t" by (auto simp: prefix_def)
  from n have ne: "dropWhile (\<lambda>c. c \<noteq> CHR 0x0A) ?t \<noteq> []" by auto
  then obtain a post where a: "dropWhile (\<lambda>c. c \<noteq> CHR 0x0A) ?t = a # post"
    by (cases "dropWhile (\<lambda>c. c \<noteq> CHR 0x0A) ?t") auto
  from hd_dropWhile [OF ne] a have "a = CHR 0x0A" by simp
  with a have d: "dropWhile (\<lambda>c. c \<noteq> CHR 0x0A) ?t = CHR 0x0A # post" by simp
  have "?t = ?b @ dropWhile (\<lambda>c. c \<noteq> CHR 0x0A) ?t" by simp
  with d have "?t = ?b @ [CHR 0x0A] @ post" by simp
  with s have "s = field @ ?b @ [CHR 0x0A] @ post" by simp
  moreover have "CHR 0x0A \<notin> set ?b" by (auto dest: set_takeWhileD)
  ultimately show ?thesis using g by blast
qed

lemma re_search_field_Some:
  "re_search_field field s = Some g \<Longrightarrow>
     \<exists>pre b post. s = pre @ field @ b @ [CHR 0x0A] @ post \<and> CHR 0x0A \<notin> set b \<and>
        g = field @ b @ [CHR 0x0A]"
proof (induction s)
  case Nil
  then have "re_match_field field [] = Some g" by simp
  from re_match_field_Some [OF this] show ?case by simp
next
  case (Cons c cs)
  show ?case
  proof (cases "re_match_field field (c # cs)")
    case None
    with Cons.prems have "re_search_field field cs = Some g" by simp
    with Cons.IH obtain pre b post where
      "cs = pre @ field @ b @ [CHR 0x0A] @ post" "CHR 0x0A \<notin> set b" "g = field @ b @ [CHR 0x0A]"
      by blast
    then have "c # cs = (c # pre) @ field @ b @ [CHR 0x0A] @ post \<and> CHR 0x0A \<notin> set b \<and>
        g = field @ b @ [CHR 0x0A]" by simp
    then show ?thesis by blast
  next
    case (Some g')
    with Cons.prems have "g' = g" by simp
    with Some obtain b post where
      "c # cs = [] @ field @ b @ [CHR 0x0A] @ post \<and> CHR 0x0A \<notin> set b \<and> g = field @ b @ [CHR 0x0A]"
      using re_match_field_Some by fastforce
    then show ?thesis by blast
  qed
qed

subsection \<open>Template fields of the body\<close>

lemma and_then_done_ok [simp]: "and_then (done_ok issue) f = f issue"
  by (simp add: and_then_def done_ok_def)

lemma and_then_Inr [simp]: "and_then (Inr u, issue) f = f issue"
  by (simp add: and_then_def)

lemma and_then_Inl [simp]: "and_then (Inl e, issue) f = (Inl e, issue)"
  by (simp add: and_then_def)

lemma add_labels_from_new_body_no_field:
  assumes "re_search_field ''* OS:'' text = None"
    "re_search_field ''* Bug fix:'' text = None"
    "re_search_field ''* Type:'' text = None"
  shows "add_labels_from_new_body catalog issue text = (Inr (), issue)"
  using assms
  by (simp add: add_labels_from_new_body_def os_line_def bug_fix_line_def type_line_def done_ok_def)

lemma add_labels_from_new_body_cong:
  assumes "re_search_field ''* OS:'' text = re_search_field ''* OS:'' text'"
    "re_search_field ''* Bug fix:'' text = re_search_field ''* Bug fix:'' text'"
    "re_search_field ''* Type:'' text = re_search_field ''* Type:'' text'"
  shows "add_labels_from_new_body catalog issue text = add_labels_from_new_body catalog issue text'"
  using assms
  by (simp add: add_labels_from_new_body_def os_line_def bug_fix_line_def type_line_def)

text \<open>
  C10. Each of the three template-field patterns needs a line feed after the field: a
  last line of the body that is not terminated by a line feed takes no part in any
  match. The search in the body gives what it gives without that line, so the line
  proposes no label; a body that is one unterminated line proposes nothing at all.
\<close>

theorem template_field_needs_newline:
  assumes "CHR 0x0A \<notin> set line" and "pre = [] \<or> last pre = CHR 0x0A"
  shows "re_search_field ''* OS:'' (pre @ line) = re_search_field ''* OS:'' pre \<and>
         re_search_field ''* Bug fix:'' (pre @ line) = re_search_field ''* Bug fix:'' pre \<and>
         re_search_field ''* Type:'' (pre @ line) = re_search_field ''* Type:'' pre \<and>
         add_labels_from_new_body catalog issue (pre @ line) =
           add_labels_from_new_body catalog issue pre \<and>
         add_labels_from_new_body catalog issue line = (Inr (), issue)"
proof -
  have os: "re_search_field ''* OS:'' (pre @ line) = re_search_field ''* OS:'' pre"
    by (rule re_search_field_append [OF assms(1) _ assms(2)]) simp
  have bf: "re_search_field ''* Bug fix:'' (pre @ line) = re_search_field ''* Bug fix:'' pre"
    by (rule re_search_field_append [OF assms(1) _ assms(2)]) simp
  have ty: "re_search_field ''* Type:'' (pre @ line) = re_search_field ''* Type:'' pre"
    by (rule re_search_field_append [OF assms(1) _ assms(2)]) simp
  have body: "add_labels_from_new_body catalog issue (pre @ line) =
      add_labels_from_new_body catalog issue pre"
    using os bf ty by (rule add_labels_from_new_body_cong)
  have last: "add_labels_from_new_body catalog issue line = (Inr (), issue)"
    by (rule add_labels_from_new_body_no_field)
       (rule re_search_field_unterminated [OF assms(1)])+
  from os bf ty body last show ?thesis by blast
qed

lemma summary_no_field:
  "re_search_field ''* OS:'' (''## Summary'' @ [CHR 0x0A]) = None"
  "re_search_field ''* Bug fix:'' (''## Summary'' @ [CHR 0x0A]) = None"
  "re_search_field ''* Type:'' (''## Summary'' @ [CHR 0x0A]) = None"
  by (simp_all add: re_match_field_def)

theorem template_field_needs_newline_witness:
  "CHR 0x0A \<notin> set ''* Type: doc, tests'' \<and>
   re_search_field ''* Type:'' (''## Summary'' @ [CHR 0x0A] @ ''* Type: doc, tests'') = None \<and>
   add_labels_from_new_body (LABELS_MAP []) (fetched ''github.Issue'' ''t'' '''' 0 [])
       (''## Summary'' @ [CHR 0x0A] @ ''* Type: doc, tests'') =
     (Inr (), fetched ''github.Issue'' ''t'' '''' 0 [])"
proof -
  have n: "CHR 0x0A \<notin> set ''* Type: doc, tests''" by simp
  have l: "''## Summary'' @ [CHR 0x0A] = [] \<or> last (''## Summary'' @ [CHR 0x0A]) = CHR 0x0A"
    by simp
  have b: "add_labels_from_new_body (LABELS_MAP []) (fetched ''github.Issue'' ''t'' '''' 0 [])
       (''## Summary'' @ [CHR 0x0A]) = (Inr (), fetched ''github.Issue'' ''t'' '''' 0 [])"
    by (rule add_labels_from_new_body_no_field) (rule summary_no_field)+
  from template_field_needs_newline [OF n l, of "LABELS_MAP []" "fetched ''github.Issue'' ''t'' '''' 0 []"]
  have "re_search_field ''* Type:'' ((''## Summary'' @ [CHR 0x0A]) @ ''* Type: doc, tests'') =
          re_search_field ''* Type:'' (''## Summary'' @ [CHR 0x0A])"
    and "add_labels_from_new_body (LABELS_MAP []) (fetched ''github.Issue'' ''t'' '''' 0 [])
          ((''## Summary'' @ [CHR 0x0A]) @ ''* Type: doc, tests'') =
         add_labels_from_new_body (LABELS_MAP []) (fetched ''github.Issue'' ''t'' '''' 0 [])
          (''## Summary'' @ [CHR 0x0A])"
    by blast+
  with b summary_no_field(3) n show ?thesis by (simp only: append_assoc simp_thms)
qed

subsection \<open>The Bug fix line\<close>

lemma add_label_bug:
  "\<not> has_label issue ''bug'' \<Longrightarrow> \<not> has_label issue ''enhancement'' \<Longrightarrow>
     add_label issue ''bug'' = (Inr (), add_to_labels issue ''bug'')"
  by (rule add_label_accept) (simp add: should_add_True_iff ILLOGICAL_PAIRS_def)

lemma add_label_enhancement:
  "\<not> has_label issue ''enhancement'' \<Longrightarrow>
     add_label issue ''enhancement'' = (Inr (), add_to_labels issue ''enhancement'')"
  by (rule add_label_accept) (simp add: should_add_True_iff ILLOGICAL_PAIRS_def)

lemma bug_fix_line_Some:
  assumes "re_search_field ''* Bug fix:'' text = Some g"
  shows "bug_fix_line issue text =
     (if is_pr issue \<and> \<not> has_label issue ''bug'' \<and> \<not> has_label issue ''enhancement''
      then (Inr (), add_to_labels issue
                      (if sublist ''yes'' (lower g) then ''bug'' else ''enhancement''))
      else (Inr (), issue))"
proof (cases "is_pr issue \<and> \<not> has_label issue ''bug'' \<and> \<not> has_label issue ''enhancement''")
  case True
  then show ?thesis
    unfolding bug_fix_line_def assms
    by (simp add: add_label_bug add_label_enhancement str_in_sublist)
next
  case False
  then show ?thesis
    unfolding bug_fix_line_def assms
    by (auto simp: done_ok_def)
qed

text \<open>
  The Bug fix block by itself, on the item as the block finds it. When the text holds
  a Bug fix line terminated by a line feed, the search finds a
  line \<open>g\<close>, and the Bug fix block does this: on a pull request that carries neither
  \<open>bug\<close> nor \<open>enhancement\<close> it attaches exactly one label, \<open>bug\<close> when the
  lower-cased \<open>g\<close> contains \<open>yes\<close> and \<open>enhancement\<close> otherwise; on an issue, or when
  one of the two labels is present, it proposes nothing and leaves the item as it was.
\<close>

lemma bug_fix_line_exclusive:
  assumes "CHR 0x0A \<in> set rest"
  shows "\<exists>g. re_search_field ''* Bug fix:'' (pre @ ''* Bug fix:'' @ rest) = Some g \<and>
           bug_fix_line issue (pre @ ''* Bug fix:'' @ rest) =
             (if is_pr issue \<and> \<not> has_label issue ''bug'' \<and> \<not> has_label issue ''enhancement''
              then (Inr (), add_to_labels issue
                              (if sublist ''yes'' (lower g) then ''bug'' else ''enhancement''))
              else (Inr (), issue))"
proof -
  from assms obtain g where g: "re_search_field ''* Bug fix:'' (pre @ ''* Bug fix:'' @ rest) = Some g"
    using re_search_field_finds by blast
  from g bug_fix_line_Some [OF g] show ?thesis by blast
qed

lemma bug_fix_line_exclusive_example:
  "CHR 0x0A \<in> set ('' yes'' @ [CHR 0x0A]) \<and>
   bug_fix_line (fetched ''github.PullRequest'' ''t'' '''' 0 [])
       (''* Bug fix:'' @ '' yes'' @ [CHR 0x0A]) =
     (Inr (), add_to_labels (fetched ''github.PullRequest'' ''t'' '''' 0 []) ''bug'')"
proof -
  let ?pr = "fetched ''github.PullRequest'' ''t'' '''' 0 []"
  have n: "CHR 0x0A \<in> set ('' yes'' @ [CHR 0x0A])" by simp
  from bug_fix_line_exclusive [OF n, of "[]" ?pr] obtain g where
    g: "re_search_field ''* Bug fix:'' (''* Bug fix:'' @ '' yes'' @ [CHR 0x0A]) = Some g" and
    b: "bug_fix_line ?pr (''* Bug fix:'' @ '' yes'' @ [CHR 0x0A]) =
          (if is_pr ?pr \<and> \<not> has_label ?pr ''bug'' \<and> \<not> has_label ?pr ''enhancement''
           then (Inr (), add_to_labels ?pr
                           (if sublist ''yes'' (lower g) then ''bug'' else ''enhancement''))
           else (Inr (), ?pr))"
    by auto
  have "re_search_field ''* Bug fix:'' (''* Bug fix:'' @ '' yes'' @ [CHR 0x0A]) =
          Some (''* Bug fix: yes'' @ [CHR 0x0A])"
    by (simp add: re_match_field_def)
  with g have "g = ''* Bug fix: yes'' @ [CHR 0x0A]" by simp
  then have y: "sublist ''yes'' (lower g)"
    by (simp add: str_in_sublist [symmetric] lower_def lower_char_def)
  have pr: "is_pr ?pr" by (simp add: is_pr_def fetched_def)
  have nl: "\<not> has_label ?pr ''bug''" "\<not> has_label ?pr ''enhancement''"
    by (simp_all add: has_label_def fetched_def)
  from b y pr nl n show ?thesis by (simp only: if_True simp_thms)
qed

subsection \<open>The label stages only add labels\<close>

lemma only_labels_added_refl: "only_labels_added issue issue"
  by (simp add: only_labels_added_def)

lemma only_labels_added_trans:
  assumes "only_labels_added a b" "only_labels_added b c"
  shows "only_labels_added a c"
proof -
  from assms obtain r1 r2 where r: "requests b = requests a @ r1" "requests c = requests b @ r2"
    by (auto simp: only_labels_added_def prefix_def)
  with assms have "list_all is_add r1" "list_all is_add r2"
    by (simp_all add: only_labels_added_def)
  with r have "prefix (requests a) (requests c)"
    "list_all is_add (drop (length (requests a)) (requests c))"
    by simp_all
  with assms show ?thesis by (simp add: only_labels_added_def)
qed

lemma add_to_labels_frame: "only_labels_added issue (add_to_labels issue label)"
  by (simp add: only_labels_added_def add_to_labels_def is_add_def)

lemma add_label_frame: "only_labels_added issue (snd (add_label issue label))"
proof (cases "should_add issue label")
  case (Inl e)
  then show ?thesis by (simp add: add_label_def only_labels_added_refl)
next
  case (Inr ok)
  then show ?thesis
    by (simp add: add_label_def only_labels_added_refl add_to_labels_frame)
qed

lemma and_then_frame:
  assumes "only_labels_added issue (snd r)"
    and "\<And>issue'. only_labels_added issue' (snd (f issue'))"
  shows "only_labels_added issue (snd (and_then r f))"
proof (cases r)
  case (Pair res issue')
  show ?thesis
  proof (cases res)
    case (Inl e)
    with Pair assms(1) show ?thesis by simp
  next
    case (Inr u)
    with Pair have "and_then r f = f issue'" by simp
    moreover from Pair assms(1) have "only_labels_added issue issue'" by simp
    ultimately show ?thesis
      using assms(2) [of issue'] by (auto intro: only_labels_added_trans)
  qed
qed

lemma done_ok_frame: "only_labels_added issue (snd (done_ok issue))"
  by (simp add: done_ok_def only_labels_added_refl)

lemma add_label_each_frame: "only_labels_added issue (snd (add_label_each issue ps))"
proof (induction ps arbitrary: issue)
  case Nil
  show ?case by (simp add: done_ok_frame)
next
  case (Cons p ps)
  obtain label keyword where p: "p = (label, keyword)" by (cases p)
  show ?case unfolding p add_label_each.simps
    by (rule and_then_frame) (rule add_label_frame, rule Cons.IH)
qed

lemma add_labels_from_text_frame:
  "only_labels_added issue (snd (add_labels_from_text catalog issue text))"
  by (simp add: add_labels_from_text_def add_label_each_frame)

lemma os_line_frame: "only_labels_added issue (snd (os_line catalog issue text))"
  by (cases "re_search_field ''* OS:'' text")
     (simp_all add: os_line_def done_ok_frame add_labels_from_text_frame)

lemma bug_fix_line_frame: "only_labels_added issue (snd (bug_fix_line issue text))"
  by (cases "re_search_field ''* Bug fix:'' text")
     (simp_all add: bug_fix_line_def done_ok_frame add_label_frame)

lemma type_checks_frame: "only_labels_added issue (snd (type_checks issue s names))"
proof (induction names arbitrary: issue)
  case Nil
  show ?case by (simp add: done_ok_frame)
next
  case (Cons name names)
  have "only_labels_added issue
          (snd (if str_in name s then add_label issue name else done_ok issue))"
    by (simp add: add_label_frame done_ok_frame)
  then show ?case unfolding type_checks.simps
    by (rule and_then_frame) (rule Cons.IH)
qed

lemma type_line_frame: "only_labels_added issue (snd (type_line issue text))"
  by (cases "re_search_field ''* Type:'' text")
     (simp_all add: type_line_def done_ok_frame type_checks_frame)

lemma add_labels_from_new_body_frame:
  "only_labels_added issue (snd (add_labels_from_new_body catalog issue text))"
  unfolding add_labels_from_new_body_def
  by (intro and_then_frame os_line_frame bug_fix_line_frame type_line_frame)

lemma only_labels_added_is_pr: "only_labels_added issue issue' \<Longrightarrow> is_pr issue' = is_pr issue"
  by (simp add: only_labels_added_def is_pr_def)

lemma only_labels_added_missing:
  "only_labels_added issue issue' \<Longrightarrow> missing_python_h issue' = missing_python_h issue"
  by (simp add: only_labels_added_def missing_python_h_def has_text_def)

lemma on_new_issue_effects:
  "on_new_issue issue =
     (Inr (), if missing_python_h issue
              then issue\<lparr>comments := Suc (comments issue), state := ''closed'',
                         requests := requests issue @
                           [CreateComment REPLY_MISSING_PYTHON_HEADERS, EditState ''closed'']\<rparr>
              else issue)"
  by (simp add: on_new_issue_def done_ok_def create_comment_def edit_state_def)

subsection \<open>The missing-header detector\<close>

text \<open>
  C3 (as amended). The missing-header detector of \<open>on_new_issue\<close> fires, that is, it
  posts the canned reply and closes the issue, exactly when the lower-cased title or the
  lower-cased body contains \<open>missing python.h\<close> or
  \<open>python.h: no such file or directory\<close>, or the body (the title is not looked at, and
  the case is kept) contains, after its space characters have been removed,
  \<^verbatim>\<open>#include<Python.h>\<close>, a line end (line feed, or carriage return and line feed) and
  \<^verbatim>\<open>^~~~\<close>.
\<close>

theorem missing_python_h_iff:
  "requests (snd (on_new_issue issue)) =
       requests issue @ [CreateComment REPLY_MISSING_PYTHON_HEADERS, EditState ''closed'']
   \<longleftrightarrow>
     sublist ''missing python.h'' (lower (title issue)) \<or>
     sublist ''missing python.h'' (lower (body issue)) \<or>
     sublist ''python.h: no such file or directory'' (lower (title issue)) \<or>
     sublist ''python.h: no such file or directory'' (lower (body issue)) \<or>
     sublist (''#include<Python.h>'' @ [CHR 0x0A] @ ''^~~~'')
             (filter (\<lambda>c. c \<noteq> CHR '' '') (body issue)) \<or>
     sublist (''#include<Python.h>'' @ [CHR 0x0D, CHR 0x0A] @ ''^~~~'')
             (filter (\<lambda>c. c \<noteq> CHR '' '') (body issue))"
proof -
  have "requests (snd (on_new_issue issue)) =
       requests issue @ [CreateComment REPLY_MISSING_PYTHON_HEADERS, EditState ''closed'']
     \<longleftrightarrow> missing_python_h issue"
    by (simp add: on_new_issue_effects)
  then show ?thesis
    by (simp add: missing_python_h_def has_text_def replace_spaces_def str_in_sublist)
qed

theorem missing_python_h_iff_witness:
  "requests (snd (on_new_issue (fetched ''github.Issue'' ''missing Python.h on build'' '''' 0 []))) =
     [CreateComment REPLY_MISSING_PYTHON_HEADERS, EditState ''closed'']"
proof -
  have "str_in ''missing python.h'' (lower ''missing Python.h on build'')"
    by (simp add: lower_def lower_char_def)
  then have "sublist ''missing python.h''
      (lower (title (fetched ''github.Issue'' ''missing Python.h on build'' '''' 0 [])))"
    by (simp add: str_in_sublist fetched_def)
  with missing_python_h_iff [of "fetched ''github.Issue'' ''missing Python.h on build'' '''' 0 []"]
  show ?thesis by (simp add: fetched_def)
qed

text \<open>
  The claim as it was stated fails in two ways. A title that contains the include line
  followed by the marker line does not fire the detector; and a marker line indented by
  a tab is not recognised, although the pattern is there once the tab is removed with
  the spaces: only the space character is removed.
\<close>

theorem missing_python_h_title_counterexample:
  "str_in (''#include<Python.h>'' @ [CHR 0x0A] @ ''^~~~'')
     (title (fetched ''github.Issue'' (''#include<Python.h>'' @ [CHR 0x0A] @ ''^~~~'') '''' 0 [])) \<and>
   snd (on_new_issue (fetched ''github.Issue'' (''#include<Python.h>'' @ [CHR 0x0A] @ ''^~~~'') '''' 0 []))
     = fetched ''github.Issue'' (''#include<Python.h>'' @ [CHR 0x0A] @ ''^~~~'') '''' 0 [] \<and>
   str_in (''#include<Python.h>'' @ [CHR 0x0A] @ ''^~~~'')
     (removeAll (CHR 0x09) (removeAll (CHR '' '')
        (body (fetched ''github.Issue'' ''build''
                 (''#include <Python.h>'' @ [CHR 0x0A, CHR 0x09] @ ''^~~~'') 0 [])))) \<and>
   snd (on_new_issue (fetched ''github.Issue'' ''build''
                        (''#include <Python.h>'' @ [CHR 0x0A, CHR 0x09] @ ''^~~~'') 0 []))
     = fetched ''github.Issue'' ''build'' (''#include <Python.h>'' @ [CHR 0x0A, CHR 0x09] @ ''^~~~'') 0 []"
  by (simp add: on_new_issue_def missing_python_h_def has_text_def replace_spaces_def
        lower_def lower_char_def fetched_def done_ok_def)

subsection \<open>Inference on a text without script names\<close>

lemma lower_append: "lower (xs @ ys) = lower xs @ lower ys"
  by (simp add: lower_def)

lemma script_name_in_text:
  assumes "endswith x ''.py''" "str_in (lower x) t"
  shows "str_in ''.py'' t"
proof -
  from assms(1) obtain y where "x = y @ ''.py''" by (auto simp: endswith_def suffix_def)
  then have "lower x = lower y @ ''.py''"
    by (simp add: lower_append) (simp add: lower_def lower_char_def)
  with assms(2) obtain pre post where "t = pre @ (lower y @ ''.py'') @ post"
    by (auto simp: str_in_iff)
  then have "t = (pre @ lower y) @ ''.py'' @ post" by simp
  then show ?thesis unfolding str_in_iff by blast
qed

lemma guess_labels_ignores_scripts:
  assumes "\<not> str_in ''.py'' (lower text)"
  shows "guess_labels_from_text (LABELS_MAP listdir) issue text =
         guess_labels_from_text (LABELS_MAP []) issue text"
proof -
  let ?P = "\<lambda>keyword. str_in (lower keyword) (lower text)"
  let ?g = "\<lambda>(label, kws). map (\<lambda>keyword. (label, keyword)) (filter ?P kws)"
  let ?ext = "\<lambda>ld (label, kws).
      if label = ''scripts'' then (label, kws @ filter (\<lambda>x. endswith x ''.py'') ld)
      else (label, kws)"
  have none: "filter ?P (filter (\<lambda>x. endswith x ''.py'') listdir) = []"
    using assms by (auto simp: filter_empty_conv dest: script_name_in_text)
  have "?g (?ext listdir e) = ?g (?ext [] e)" for e
  proof (cases e)
    case (Pair label kws)
    with none show ?thesis by simp
  qed
  then have "map (\<lambda>e. ?g (?ext listdir e)) LABELS_MAP_literal =
             map (\<lambda>e. ?g (?ext [] e)) LABELS_MAP_literal"
    by (intro map_cong) simp_all
  then have "concat (map (\<lambda>e. ?g (?ext listdir e)) LABELS_MAP_literal) =
             concat (map (\<lambda>e. ?g (?ext [] e)) LABELS_MAP_literal)"
    by (rule arg_cong)
  then show ?thesis
    by (simp only: guess_labels_from_text_def LABELS_MAP_def map_map comp_def)
qed

lemma guess_title_psutil_literal:
  "guess_labels_from_text (LABELS_MAP []) issue ''psutil'' = []"
  by code_simp

lemma guess_title_psutil:
  "guess_labels_from_text (LABELS_MAP listdir) issue ''psutil'' = []"
proof -
  have "\<not> str_in ''.py'' (lower ''psutil'')"
    by (simp add: lower_def lower_char_def)
  then have "guess_labels_from_text (LABELS_MAP listdir) issue ''psutil'' =
      guess_labels_from_text (LABELS_MAP []) issue ''psutil''"
    by (rule guess_labels_ignores_scripts)
  also have "\<dots> = []" by (rule guess_title_psutil_literal)
  finally show ?thesis .
qed

subsection \<open>The dispatch in main\<close>

lemma and_then_assoc:
  "and_then (and_then r f) g = and_then r (\<lambda>issue. and_then (f issue) g)"
  by (cases r) (auto simp: and_then_def split: sum.splits)


lemma and_then_cong_frame:
  assumes "only_labels_added issue (snd r)"
    and "\<And>issue'. only_labels_added issue issue' \<Longrightarrow> f issue' = g issue'"
  shows "and_then r f = and_then r g"
proof (cases r)
  case (Pair res issue')
  with assms show ?thesis by (cases res) simp_all
qed

lemma on_new_issue_then_pr:
  "and_then (on_new_issue issue) (\<lambda>issue3. if is_pr issue3 then on_new_pr issue3 else done_ok issue3)
     = on_new_issue issue"
  by (simp add: on_new_issue_effects on_new_pr_def done_ok_def)

lemma main_tail:
  assumes "only_labels_added issue issue2"
  shows "and_then (if is_issue issue2 then on_new_issue issue2 else done_ok issue2)
           (\<lambda>issue3. if is_pr issue3 then on_new_pr issue3 else done_ok issue3) =
         (if is_issue issue then on_new_issue issue2 else done_ok issue2)"
proof -
  from assms have "is_issue issue2 = is_issue issue"
    by (simp add: is_issue_def only_labels_added_is_pr)
  then show ?thesis
    by (simp add: on_new_issue_then_pr on_new_pr_def)
qed

lemma main_new:
  assumes "is_new issue"
  shows "main catalog issue =
     and_then (and_then (add_labels_from_text catalog issue (title issue))
                 (\<lambda>issue1. add_labels_from_new_body catalog issue1 (body issue)))
       (\<lambda>issue2. if is_issue issue then on_new_issue issue2 else done_ok issue2)"
proof -
  let ?tail = "\<lambda>issue2. and_then (if is_issue issue2 then on_new_issue issue2 else done_ok issue2)
           (\<lambda>issue3. if is_pr issue3 then on_new_pr issue3 else done_ok issue3)"
  let ?tail' = "\<lambda>issue2. if is_issue issue then on_new_issue issue2 else done_ok issue2"
  have inner: "and_then (add_labels_from_new_body catalog issue1 (body issue1)) ?tail =
               and_then (add_labels_from_new_body catalog issue1 (body issue)) ?tail'"
    if f: "only_labels_added issue issue1" for issue1
  proof -
    from f have b: "body issue1 = body issue" by (simp add: only_labels_added_def)
    have "and_then (add_labels_from_new_body catalog issue1 (body issue)) ?tail =
          and_then (add_labels_from_new_body catalog issue1 (body issue)) ?tail'"
    proof (rule and_then_cong_frame)
      show "only_labels_added issue1 (snd (add_labels_from_new_body catalog issue1 (body issue)))"
        by (rule add_labels_from_new_body_frame)
    next
      fix issue2 assume "only_labels_added issue1 issue2"
      with f have "only_labels_added issue issue2" by (rule only_labels_added_trans)
      then show "?tail issue2 = ?tail' issue2" by (rule main_tail)
    qed
    with b show ?thesis by simp
  qed
  have "main catalog issue =
      and_then (add_labels_from_text catalog issue (title issue))
        (\<lambda>issue1. and_then (add_labels_from_new_body catalog issue1 (body issue1)) ?tail)"
    using assms by (simp add: main_def)
  also have "\<dots> = and_then (add_labels_from_text catalog issue (title issue))
        (\<lambda>issue1. and_then (add_labels_from_new_body catalog issue1 (body issue)) ?tail')"
    by (rule and_then_cong_frame [OF add_labels_from_text_frame]) (rule inner)
  finally show ?thesis by (simp only: and_then_assoc)
qed

lemma label_stages_frame:
  "only_labels_added issue
     (snd (and_then (add_labels_from_text catalog issue (title issue))
                 (\<lambda>issue1. add_labels_from_new_body catalog issue1 (body issue))))"
  by (intro and_then_frame add_labels_from_text_frame add_labels_from_new_body_frame)


text \<open>
  The end of a run on a new issue. Once the label inference on the title and on the
  body template has run (it returned with the item \<open>issue1\<close>, having only added labels), the run ends
  with the detector: when the detector matches, exactly two requests follow, first the
  canned reply as a comment and then the change of state to closed, and nothing after
  them; when it does not match, nothing follows. Whenever the detector does not match,
  the whole run only adds labels: no comment is posted and the state is not changed.
\<close>

lemma missing_header_reply_then_close:
  assumes "is_new issue" "is_issue issue"
  shows "(and_then (add_labels_from_text catalog issue (title issue))
            (\<lambda>issue1. add_labels_from_new_body catalog issue1 (body issue)) = (Inr (), issue1)
          \<longrightarrow> only_labels_added issue issue1 \<and>
              main catalog issue =
                (Inr (), if missing_python_h issue
                         then issue1\<lparr>comments := Suc (comments issue1), state := ''closed'',
                                     requests := requests issue1 @
                                       [CreateComment REPLY_MISSING_PYTHON_HEADERS,
                                        EditState ''closed'']\<rparr>
                         else issue1)) \<and>
         (\<not> missing_python_h issue \<longrightarrow> only_labels_added issue (snd (main catalog issue)))"
proof (intro conjI impI)
  let ?stages = "and_then (add_labels_from_text catalog issue (title issue))
            (\<lambda>issue1. add_labels_from_new_body catalog issue1 (body issue))"
  have m: "main catalog issue = and_then ?stages on_new_issue"
    using assms by (simp add: main_new)
  have fr: "only_labels_added issue (snd ?stages)" by (rule label_stages_frame)
  {
    assume s: "?stages = (Inr (), issue1)"
    with fr show f1: "only_labels_added issue issue1" by simp
    then have "missing_python_h issue1 = missing_python_h issue"
      by (rule only_labels_added_missing)
    with m s show "main catalog issue =
                (Inr (), if missing_python_h issue
                         then issue1\<lparr>comments := Suc (comments issue1), state := ''closed'',
                                     requests := requests issue1 @
                                       [CreateComment REPLY_MISSING_PYTHON_HEADERS,
                                        EditState ''closed'']\<rparr>
                         else issue1)"
      by (simp add: on_new_issue_effects)
  }
  {
    assume n: "\<not> missing_python_h issue"
    obtain res issue' where r: "?stages = (res, issue')" by (cases ?stages)
    with fr have f: "only_labels_added issue issue'" by simp
    then have "\<not> missing_python_h issue'" using n by (simp add: only_labels_added_missing)
    then have "snd (and_then ?stages on_new_issue) = issue'"
      using r by (cases res) (simp_all add: on_new_issue_effects)
    with m f show "only_labels_added issue (snd (main catalog issue))" by simp
  }
qed


lemma missing_header_reply_then_close_example:
  "is_new (fetched ''github.Issue'' ''psutil'' ''missing Python.h'' 0 []) \<and>
   is_issue (fetched ''github.Issue'' ''psutil'' ''missing Python.h'' 0 []) \<and>
   main (LABELS_MAP []) (fetched ''github.Issue'' ''psutil'' ''missing Python.h'' 0 []) =
     (Inr (), (fetched ''github.Issue'' ''psutil'' ''missing Python.h'' 0 [])
                \<lparr>comments := 1, state := ''closed'',
                 requests := [CreateComment REPLY_MISSING_PYTHON_HEADERS, EditState ''closed'']\<rparr>)"
proof -
  let ?i = "fetched ''github.Issue'' ''psutil'' ''missing Python.h'' 0 []"
  have n: "is_new ?i" "is_issue ?i" by (simp_all add: is_new_def is_issue_def is_pr_def fetched_def)
  have t: "add_labels_from_text (LABELS_MAP []) ?i (title ?i) = (Inr (), ?i)"
    by (simp add: add_labels_from_text_def fetched_def guess_title_psutil done_ok_def)
  have b: "add_labels_from_new_body (LABELS_MAP []) ?i (body ?i) = (Inr (), ?i)"
    by (rule add_labels_from_new_body_no_field)
       (simp_all add: fetched_def re_match_field_def)
  from t b have s: "and_then (add_labels_from_text (LABELS_MAP []) ?i (title ?i))
            (\<lambda>issue1. add_labels_from_new_body (LABELS_MAP []) issue1 (body ?i)) = (Inr (), ?i)"
    by simp
  have m: "missing_python_h ?i"
    by (simp add: missing_python_h_def has_text_def fetched_def lower_def lower_char_def)
  from missing_header_reply_then_close [OF n, of "LABELS_MAP []" ?i] s m
  have "main (LABELS_MAP []) ?i =
          (Inr (), ?i\<lparr>comments := Suc (comments ?i), state := ''closed'',
                       requests := requests ?i @
                         [CreateComment REPLY_MISSING_PYTHON_HEADERS, EditState ''closed'']\<rparr>)"
    by simp
  then have "main (LABELS_MAP []) ?i =
     (Inr (), ?i\<lparr>comments := 1, state := ''closed'',
                 requests := [CreateComment REPLY_MISSING_PYTHON_HEADERS, EditState ''closed'']\<rparr>)"
    by (simp add: fetched_def)
  with n show ?thesis by blast
qed

subsection \<open>The Type line\<close>

text \<open>
  C6. On an item that carries \<open>tests\<close>, a Type line naming \<open>doc\<close> and \<open>wheels\<close> does
  not propose one label per name found: proposing \<open>doc\<close> fires the pair
  \<open>(doc, tests)\<close>, the guard raises \<open>TypeError\<close>, and the Type block is left before
  \<open>wheels\<close> is looked for. No request is sent.
\<close>

theorem type_line_aborts:
  "add_labels_from_new_body catalog
     (fetched ''github.Issue'' ''psutil'' (''* Type: doc, wheels'' @ [CHR 0x0A]) 0 [''tests''])
     (''* Type: doc, wheels'' @ [CHR 0x0A]) =
   (Inl TypeError,
    fetched ''github.Issue'' ''psutil'' (''* Type: doc, wheels'' @ [CHR 0x0A]) 0 [''tests''])"
proof -
  let ?t = "''* Type: doc, wheels'' @ [CHR 0x0A]"
  let ?i = "fetched ''github.Issue'' ''psutil'' ?t 0 [''tests'']"
  have os: "re_search_field ''* OS:'' ?t = None" by (simp add: re_match_field_def)
  have bf: "re_search_field ''* Bug fix:'' ?t = None" by (simp add: re_match_field_def)
  have ty: "re_search_field ''* Type:'' ?t = Some ?t" by (simp add: re_match_field_def)
  have doc: "str_in ''doc'' (lower ?t)" by (simp add: lower_def lower_char_def)
  have "add_label ?i ''doc'' = (Inl TypeError, ?i)"
    by (rule add_label_pair_fires [of _ "''tests''"])
       (simp_all add: ILLOGICAL_PAIRS_def has_label_def fetched_def)
  with doc have "type_checks ?i (lower ?t) TYPE_NAMES = (Inl TypeError, ?i)"
    by (simp add: TYPE_NAMES_def)
  with os bf ty show ?thesis
    by (simp add: add_labels_from_new_body_def os_line_def bug_fix_line_def type_line_def)
qed

subsection \<open>The guard is one-directional\<close>

lemma add_label_right_attaches:
  assumes "(left, right) \<in> set ILLOGICAL_PAIRS" "has_label issue left" "\<not> has_label issue right"
    and "\<not> (right = ''doc'' \<and> has_label issue ''tests'')"
  shows "add_label issue right = (Inr (), add_to_labels issue right)"
proof -
  have "should_add issue right = Inr True"
    using assms by (auto simp: should_add_True_iff ILLOGICAL_PAIRS_def)
  then show ?thesis by (rule add_label_accept)
qed

text \<open>
  The claim as it was stated fails for the pair \<open>(scripts, doc)\<close> on an item that
  carries \<open>scripts\<close> and \<open>tests\<close>: \<open>doc\<close> is not attached.
\<close>

theorem guard_one_directional_counterexample:
  "(''scripts'', ''doc'') \<in> set ILLOGICAL_PAIRS \<and>
   has_label (fetched ''github.Issue'' ''psutil'' '''' 0 [''scripts'', ''tests'']) ''scripts'' \<and>
   \<not> has_label (fetched ''github.Issue'' ''psutil'' '''' 0 [''scripts'', ''tests'']) ''doc'' \<and>
   snd (add_label (fetched ''github.Issue'' ''psutil'' '''' 0 [''scripts'', ''tests'']) ''doc'') =
     fetched ''github.Issue'' ''psutil'' '''' 0 [''scripts'', ''tests'']"
  by (simp add: add_label_def should_add_def ILLOGICAL_PAIRS_def has_label_def fetched_def)

lemma type_line_doc_tests:
  "add_labels_from_new_body catalog
     (fetched ''github.Issue'' ''psutil'' (''* Type: doc, tests'' @ [CHR 0x0A]) 0 [])
     (''* Type: doc, tests'' @ [CHR 0x0A]) =
   (Inr (), (fetched ''github.Issue'' ''psutil'' (''* Type: doc, tests'' @ [CHR 0x0A]) 0 [])
              \<lparr>labels := [''doc'', ''tests''],
               requests := [AddToLabels ''doc'', AddToLabels ''tests'']\<rparr>)"
proof -
  let ?t = "''* Type: doc, tests'' @ [CHR 0x0A]"
  let ?i = "fetched ''github.Issue'' ''psutil'' ?t 0 []"
  have os: "re_search_field ''* OS:'' ?t = None" by (simp add: re_match_field_def)
  have bf: "re_search_field ''* Bug fix:'' ?t = None" by (simp add: re_match_field_def)
  have ty: "re_search_field ''* Type:'' ?t = Some ?t" by (simp add: re_match_field_def)
  have lo: "lower ?t = ''* type: doc, tests'' @ [CHR 0x0A]"
    by (simp add: lower_def lower_char_def)
  have "type_checks ?i (''* type: doc, tests'' @ [CHR 0x0A]) TYPE_NAMES =
      (Inr (), ?i\<lparr>labels := [''doc'', ''tests''],
                   requests := [AddToLabels ''doc'', AddToLabels ''tests'']\<rparr>)"
    by (simp add: TYPE_NAMES_def add_label_def should_add_def ILLOGICAL_PAIRS_def
          has_label_def add_to_labels_def fetched_def done_ok_def)
  with os bf ty lo show ?thesis
    by (simp add: add_labels_from_new_body_def os_line_def bug_fix_line_def type_line_def
          done_ok_def)
qed

text \<open>
  C9 (as amended). The guard looks at a pair from its left label only: for every pair
  \<open>(left, right)\<close> of the table, proposing \<open>right\<close> on an item that carries \<open>left\<close> and
  not \<open>right\<close> attaches \<open>right\<close>, unless \<open>right\<close> is \<open>doc\<close> and the item carries
  \<open>tests\<close> (then the pair \<open>(doc, tests)\<close> fires). So one run can attach both labels of
  a pair: a new issue without labels whose body has the line \<^verbatim>\<open>* Type: doc, tests\<close> ends
  with \<open>doc\<close> and \<open>tests\<close>, whatever the scripts directory holds.
\<close>

theorem guard_one_directional:
  "((left, right) \<in> set ILLOGICAL_PAIRS \<and> has_label issue left \<and> \<not> has_label issue right \<and>
    \<not> (right = ''doc'' \<and> has_label issue ''tests'') \<longrightarrow>
      add_label issue right = (Inr (), add_to_labels issue right)) \<and>
   main (LABELS_MAP listdir)
     (fetched ''github.Issue'' ''psutil'' (''* Type: doc, tests'' @ [CHR 0x0A]) 0 []) =
   (Inr (), (fetched ''github.Issue'' ''psutil'' (''* Type: doc, tests'' @ [CHR 0x0A]) 0 [])
              \<lparr>labels := [''doc'', ''tests''],
               requests := [AddToLabels ''doc'', AddToLabels ''tests'']\<rparr>)"
proof (intro conjI impI)
  assume "(left, right) \<in> set ILLOGICAL_PAIRS \<and> has_label issue left \<and>
    \<not> has_label issue right \<and> \<not> (right = ''doc'' \<and> has_label issue ''tests'')"
  then show "add_label issue right = (Inr (), add_to_labels issue right)"
    by (intro add_label_right_attaches [of left]) simp_all
next
  let ?t = "''* Type: doc, tests'' @ [CHR 0x0A]"
  let ?i = "fetched ''github.Issue'' ''psutil'' ?t 0 []"
  let ?j = "?i\<lparr>labels := [''doc'', ''tests''],
                requests := [AddToLabels ''doc'', AddToLabels ''tests'']\<rparr>"
  have n: "is_new ?i" "is_issue ?i"
    by (simp_all add: is_new_def is_issue_def is_pr_def fetched_def)
  have t: "add_labels_from_text (LABELS_MAP listdir) ?i (title ?i) = (Inr (), ?i)"
    by (simp add: add_labels_from_text_def fetched_def guess_title_psutil done_ok_def)
  have bd: "body ?i = ?t" by (simp add: fetched_def)
  have b: "add_labels_from_new_body (LABELS_MAP listdir) ?i (body ?i) = (Inr (), ?j)"
    unfolding bd by (rule type_line_doc_tests)
  have "\<not> missing_python_h ?i"
    by (simp add: missing_python_h_def has_text_def replace_spaces_def fetched_def
          lower_def lower_char_def)
  moreover have "only_labels_added ?i ?j"
    by (simp add: only_labels_added_def is_add_def fetched_def)
  ultimately have "\<not> missing_python_h ?j" by (simp add: only_labels_added_missing)
  then have o: "on_new_issue ?j = (Inr (), ?j)" by (simp add: on_new_issue_effects)
  from n have "main (LABELS_MAP listdir) ?i =
     and_then (and_then (add_labels_from_text (LABELS_MAP listdir) ?i (title ?i))
                 (\<lambda>issue1. add_labels_from_new_body (LABELS_MAP listdir) issue1 (body ?i)))
       on_new_issue"
    by (simp add: main_new)
  with t b o show "main (LABELS_MAP listdir) ?i = (Inr (), ?j)" by simp
qed

theorem guard_one_directional_witness:
  "(''doc'', ''tests'') \<in> set ILLOGICAL_PAIRS \<and>
   has_label (fetched ''github.Issue'' ''psutil'' '''' 0 [''doc'']) ''doc'' \<and>
   \<not> has_label (fetched ''github.Issue'' ''psutil'' '''' 0 [''doc'']) ''tests'' \<and>
   add_label (fetched ''github.Issue'' ''psutil'' '''' 0 [''doc'']) ''tests'' =
     (Inr (), add_to_labels (fetched ''github.Issue'' ''psutil'' '''' 0 [''doc'']) ''tests'')"
proof -
  let ?i = "fetched ''github.Issue'' ''psutil'' '''' 0 [''doc'']"
  have h: "(''doc'', ''tests'') \<in> set ILLOGICAL_PAIRS" "has_label ?i ''doc''"
    "\<not> has_label ?i ''tests''"
    by (simp_all add: ILLOGICAL_PAIRS_def has_label_def fetched_def)
  with guard_one_directional [of "''doc''" "''tests''" ?i]
  have "add_label ?i ''tests'' = (Inr (), add_to_labels ?i ''tests'')" by simp
  with h show ?thesis by blast
qed

subsection \<open>Runs cut short by the guard\<close>

text \<open>
  C4. A new issue that carries \<open>tests\<close>, with the title \<^verbatim>\<open>psutil\<close> and a body made of
  the line \<^verbatim>\<open>* Type: doc\<close> followed by \<^verbatim>\<open>missing Python.h\<close>: the condition of the
  missing-header detector holds for it, yet the run posts no reply and does not close
  the issue. The Type block proposes \<open>doc\<close>, the pair \<open>(doc, tests)\<close> fires, the guard
  raises \<open>TypeError\<close>, and \<open>main\<close> ends there, before \<open>on_new_issue\<close> is called. This
  holds whatever the scripts directory contains.
\<close>

theorem detector_not_reached:
  "is_new (fetched ''github.Issue'' ''psutil''
             (''* Type: doc'' @ [CHR 0x0A] @ ''missing Python.h'') 0 [''tests'']) \<and>
   is_issue (fetched ''github.Issue'' ''psutil''
             (''* Type: doc'' @ [CHR 0x0A] @ ''missing Python.h'') 0 [''tests'']) \<and>
   missing_python_h (fetched ''github.Issue'' ''psutil''
             (''* Type: doc'' @ [CHR 0x0A] @ ''missing Python.h'') 0 [''tests'']) \<and>
   main (LABELS_MAP listdir)
     (fetched ''github.Issue'' ''psutil''
        (''* Type: doc'' @ [CHR 0x0A] @ ''missing Python.h'') 0 [''tests'']) =
   (Inl TypeError,
    fetched ''github.Issue'' ''psutil''
      (''* Type: doc'' @ [CHR 0x0A] @ ''missing Python.h'') 0 [''tests''])"
proof -
  let ?b = "''* Type: doc'' @ [CHR 0x0A] @ ''missing Python.h''"
  let ?i = "fetched ''github.Issue'' ''psutil'' ?b 0 [''tests'']"
  have n: "is_new ?i" "is_issue ?i"
    by (simp_all add: is_new_def is_issue_def is_pr_def fetched_def)
  have m: "missing_python_h ?i"
    by (simp add: missing_python_h_def has_text_def fetched_def lower_def lower_char_def)
  have t: "add_labels_from_text (LABELS_MAP listdir) ?i (title ?i) = (Inr (), ?i)"
    by (simp add: add_labels_from_text_def fetched_def guess_title_psutil done_ok_def)
  have bd: "body ?i = ?b" by (simp add: fetched_def)
  have os: "re_search_field ''* OS:'' ?b = None" by (simp add: re_match_field_def)
  have bf: "re_search_field ''* Bug fix:'' ?b = None" by (simp add: re_match_field_def)
  have ty: "re_search_field ''* Type:'' ?b = Some (''* Type: doc'' @ [CHR 0x0A])"
    by (simp add: re_match_field_def)
  have doc: "str_in ''doc'' (lower (''* Type: doc'' @ [CHR 0x0A]))"
    by (simp add: lower_def lower_char_def)
  have "add_label ?i ''doc'' = (Inl TypeError, ?i)"
    by (rule add_label_pair_fires [of _ "''tests''"])
       (simp_all add: ILLOGICAL_PAIRS_def has_label_def fetched_def)
  with doc have "type_checks ?i (lower (''* Type: doc'' @ [CHR 0x0A])) TYPE_NAMES =
      (Inl TypeError, ?i)"
    by (simp add: TYPE_NAMES_def)
  with os bf ty have b: "add_labels_from_new_body (LABELS_MAP listdir) ?i ?b = (Inl TypeError, ?i)"
    by (simp add: add_labels_from_new_body_def os_line_def bug_fix_line_def type_line_def)
  from n have "main (LABELS_MAP listdir) ?i =
     and_then (and_then (add_labels_from_text (LABELS_MAP listdir) ?i (title ?i))
                 (\<lambda>issue1. add_labels_from_new_body (LABELS_MAP listdir) issue1 (body ?i)))
       on_new_issue"
    by (simp add: main_new)
  with t b bd have "main (LABELS_MAP listdir) ?i = (Inl TypeError, ?i)" by simp
  with n m show ?thesis by blast
qed

lemma guess_os_line_literal:
  "guess_labels_from_text (LABELS_MAP []) issue (''* OS: see doc '' @ [CHR 0x0A]) =
     [(''doc'', ''doc '')]"
  by code_simp

lemma guess_os_line:
  "guess_labels_from_text (LABELS_MAP listdir) issue (''* OS: see doc '' @ [CHR 0x0A]) =
     [(''doc'', ''doc '')]"
proof -
  have "\<not> str_in ''.py'' (lower (''* OS: see doc '' @ [CHR 0x0A]))"
    by (simp add: lower_def lower_char_def)
  then have "guess_labels_from_text (LABELS_MAP listdir) issue (''* OS: see doc '' @ [CHR 0x0A]) =
      guess_labels_from_text (LABELS_MAP []) issue (''* OS: see doc '' @ [CHR 0x0A])"
    by (rule guess_labels_ignores_scripts)
  also have "\<dots> = [(''doc'', ''doc '')]" by (rule guess_os_line_literal)
  finally show ?thesis .
qed

text \<open>
  C5. A new pull request that carries \<open>tests\<close> and neither \<open>bug\<close> nor
  \<open>enhancement\<close>, with a body made of the lines \<^verbatim>\<open>* OS: see doc \<close> and
  \<^verbatim>\<open>* Bug fix: yes\<close>: the Bug fix line is there and would be matched, yet neither
  \<open>bug\<close> nor \<open>enhancement\<close> is proposed. The OS block comes first; its inference yields
  \<open>doc\<close>, the pair \<open>(doc, tests)\<close> fires, the guard raises \<open>TypeError\<close>, and
  \<open>add_labels_from_new_body\<close> ends there without a request.
\<close>

theorem bug_fix_line_not_reached:
  "is_pr (fetched ''github.PullRequest'' ''psutil''
            (''* OS: see doc '' @ [CHR 0x0A] @ ''* Bug fix: yes'' @ [CHR 0x0A]) 0 [''tests'']) \<and>
   \<not> has_label (fetched ''github.PullRequest'' ''psutil''
            (''* OS: see doc '' @ [CHR 0x0A] @ ''* Bug fix: yes'' @ [CHR 0x0A]) 0 [''tests''])
          ''bug'' \<and>
   \<not> has_label (fetched ''github.PullRequest'' ''psutil''
            (''* OS: see doc '' @ [CHR 0x0A] @ ''* Bug fix: yes'' @ [CHR 0x0A]) 0 [''tests''])
          ''enhancement'' \<and>
   re_search_field ''* Bug fix:''
       (''* OS: see doc '' @ [CHR 0x0A] @ ''* Bug fix: yes'' @ [CHR 0x0A]) =
     Some (''* Bug fix: yes'' @ [CHR 0x0A]) \<and>
   add_labels_from_new_body (LABELS_MAP listdir)
     (fetched ''github.PullRequest'' ''psutil''
        (''* OS: see doc '' @ [CHR 0x0A] @ ''* Bug fix: yes'' @ [CHR 0x0A]) 0 [''tests''])
     (''* OS: see doc '' @ [CHR 0x0A] @ ''* Bug fix: yes'' @ [CHR 0x0A]) =
   (Inl TypeError,
    fetched ''github.PullRequest'' ''psutil''
      (''* OS: see doc '' @ [CHR 0x0A] @ ''* Bug fix: yes'' @ [CHR 0x0A]) 0 [''tests''])"
proof -
  let ?b = "''* OS: see doc '' @ [CHR 0x0A] @ ''* Bug fix: yes'' @ [CHR 0x0A]"
  let ?i = "fetched ''github.PullRequest'' ''psutil'' ?b 0 [''tests'']"
  have p: "is_pr ?i" by (simp add: is_pr_def fetched_def)
  have l: "\<not> has_label ?i ''bug''" "\<not> has_label ?i ''enhancement''"
    by (simp_all add: has_label_def fetched_def)
  have bf: "re_search_field ''* Bug fix:'' ?b = Some (''* Bug fix: yes'' @ [CHR 0x0A])"
    by (simp add: re_match_field_def)
  have os: "re_search_field ''* OS:'' ?b = Some (''* OS: see doc '' @ [CHR 0x0A])"
    by (simp add: re_match_field_def)
  have "add_label ?i ''doc'' = (Inl TypeError, ?i)"
    by (rule add_label_pair_fires [of _ "''tests''"])
       (simp_all add: ILLOGICAL_PAIRS_def has_label_def fetched_def)
  with guess_os_line [of listdir ?i]
  have "add_labels_from_text (LABELS_MAP listdir) ?i (''* OS: see doc '' @ [CHR 0x0A]) =
      (Inl TypeError, ?i)"
    by (simp add: add_labels_from_text_def)
  with os have "os_line (LABELS_MAP listdir) ?i ?b = (Inl TypeError, ?i)"
    by (simp add: os_line_def)
  then have "add_labels_from_new_body (LABELS_MAP listdir) ?i ?b = (Inl TypeError, ?i)"
    by (simp add: add_labels_from_new_body_def)
  with p l bf show ?thesis by blast
qed

end
